theory Spec2Isabelle
  imports
    Complex_Main
    "HOL-Library.Word"
    "HOL-Library.Finite_Map"
    "HOL-Library.Char_ord"
    "HOL-Library.List_Lexorder"
begin

unbundle bit_operations_syntax

chapter \<open>ip-resolver: the resolution engine\<close>

text \<open>
  A shallow embedding of the Go packages \<^verbatim>\<open>cache\<close> (the persistent revision of the sharded
  cache), \<^verbatim>\<open>worker\<close> (inflight set, request handler, worker) and \<^verbatim>\<open>model\<close> (the trie-based
  tag normalizer).

  Conventions.
  \<^item> A Go \<^verbatim>\<open>string\<close> used as a cache key, IP text or tag is a byte string: HOL's \<open>string\<close>.
  \<^item> \<^verbatim>\<open>int64\<close> is \<open>64 word\<close>: \<open>+\<close> and \<open>-\<close> wrap, comparisons read the word with \<open>sint\<close>.
  \<^item> An operation that runs under a shard lock is one atomic state transformer
    \<open>Cache \<Rightarrow> Cache\<close>; the points between two transformers are the quiescent points.
  \<^item> Go leaves the iteration order of a map unspecified. Where the code takes the first key
    of a \<^verbatim>\<open>range\<close> loop, the model takes a number as an extra argument and uses it to pick
    the key, so that every key of the map can be the one picked.
\<close>

section \<open>Package cache\<close>

subsection \<open>Data\<close>

type_synonym int64 = "64 word"
type_synonym int32 = "32 word"

text \<open>\<^verbatim>\<open>type entry struct { value string; exp int64; refreshAt int64 }\<close>\<close>

record entry =
  e_value :: string
  e_exp :: int64
  e_refreshAt :: int64

text \<open>\<^verbatim>\<open>type persistenceOp struct { IsDelete bool; Key, Value string; Exp, RefreshAt int64 }\<close>\<close>

record persistenceOp =
  IsDelete :: bool
  Key :: string
  Value :: string
  Exp :: int64
  RefreshAt :: int64

type_synonym items = "(string, entry) fmap"

text \<open>
  \<^verbatim>\<open>type Cache struct\<close>. The array of 256 shards is a function from the 8-bit index; each
  shard is its map \<^verbatim>\<open>items\<close> (the lock is the atomicity of the operations). \<^verbatim>\<open>persistCh\<close> is
  the buffered channel, oldest element first. \<^verbatim>\<open>stop\<close> records whether the channel \<^verbatim>\<open>stop\<close>
  has been closed. The database handles are not part of the model.
\<close>

record Cache =
  shards :: "8 word \<Rightarrow> items"
  ttl :: int64
  refreshWindow :: int64
  shardCap :: int
  count :: int64
  droppedUpdates :: int64
  now :: int64
  stop :: bool
  persistCh :: "persistenceOp list"
  closedFlag :: int32

definition shardCount :: nat where
  "shardCount = 256"

definition shardMask :: "64 word" where
  "shardMask = 255"

definition defaultShardCapacity :: int where
  "defaultShardCapacity = 2000"

definition persistChCap :: nat where
  "persistChCap = 2048"

subsection \<open>Shard selection\<close>

text \<open>The loop of \<^verbatim>\<open>getShard\<close>: FNV-1a over the bytes of the key, in \<^verbatim>\<open>uint64\<close>.\<close>

fun fnv1a :: "64 word \<Rightarrow> string \<Rightarrow> 64 word" where
  "fnv1a h [] = h"
| "fnv1a h (b # bs) = fnv1a ((h XOR word_of_nat (of_char b)) * 1099511628211) bs"

definition shardIndex :: "string \<Rightarrow> 8 word" where
  "shardIndex key = ucast (fnv1a 14695981039346656037 key AND shardMask)"

definition getShard :: "Cache \<Rightarrow> string \<Rightarrow> items" where
  "getShard c key = shards c (shardIndex key)"

definition len :: "items \<Rightarrow> nat" where
  "len m = fcard (fmdom m)"

subsection \<open>Get\<close>

text \<open>
  \<^verbatim>\<open>func (c *Cache) Get(key string) (string, bool, bool, time.Duration)\<close>.
  The result is (value, found, needsRefresh, remaining).
\<close>

definition Get :: "Cache \<Rightarrow> string \<Rightarrow> string \<times> bool \<times> bool \<times> int64" where
  "Get c key =
     (let nw = now c; s = getShard c key in
      case fmlookup s key of
        None \<Rightarrow> ('''', False, False, 0)
      | Some e \<Rightarrow>
          if sint (e_exp e) \<le> sint nw then ('''', False, False, 0)
          else
            let needsRefresh = (0 < sint (refreshWindow c) \<and> sint (e_refreshAt e) \<le> sint nw);
                remaining = e_exp e - nw
            in (e_value e, True, needsRefresh, remaining))"

subsection \<open>Construction\<close>

text \<open>
  \<^verbatim>\<open>int64(x)\<close> on a \<^verbatim>\<open>float64\<close> truncates towards zero.
\<close>

definition int64_of_float :: "real \<Rightarrow> int" where
  "int64_of_float x = (if 0 \<le> x then \<lfloor>x\<rfloor> else \<lceil>x\<rceil>)"

text \<open>
  \<^verbatim>\<open>func New(ttl time.Duration, refreshRatio float64) *Cache\<close>. The third argument is the
  reading of \<^verbatim>\<open>time.Now().UnixNano()\<close>. A \<^verbatim>\<open>float64\<close> is modelled by a real number: the
  comparisons agree with Go's on every value that is not NaN, and the product
  \<^verbatim>\<open>float64(ttl) * refreshRatio\<close> is taken exactly where Go rounds it; for a ratio of 0 both
  are 0. The two background tasks that \<open>New\<close> starts are the operations \<open>tick\<close> and
  \<open>cleanupShard\<close> below.
\<close>

definition New :: "int64 \<Rightarrow> real \<Rightarrow> int64 \<Rightarrow> Cache" where
  "New ttl0 refreshRatio t0 =
     (let ratio = (if refreshRatio < 0 \<or> refreshRatio \<ge> 1 then 0 else refreshRatio) in
      \<lparr> shards = (\<lambda>i. fmempty),
        ttl = ttl0,
        refreshWindow = word_of_int (int64_of_float (real_of_int (sint ttl0) * ratio)),
        shardCap = defaultShardCapacity,
        count = 0,
        droppedUpdates = 0,
        now = t0,
        stop = False,
        persistCh = [],
        closedFlag = 0 \<rparr>)"

subsection \<open>Persistence channel\<close>

text \<open>
  \<^verbatim>\<open>func (c *Cache) sendToPersist(op persistenceOp)\<close>: a \<^verbatim>\<open>select\<close> with a \<^verbatim>\<open>default\<close>
  branch on a channel of capacity 2048; the send is taken when the buffer has room.
\<close>

definition sendToPersist :: "persistenceOp \<Rightarrow> Cache \<Rightarrow> Cache" where
  "sendToPersist op c =
     (if closedFlag c = 1 then c\<lparr>droppedUpdates := droppedUpdates c + 1\<rparr>
      else if length (persistCh c) < persistChCap then c\<lparr>persistCh := persistCh c @ [op]\<rparr>
      else c\<lparr>droppedUpdates := droppedUpdates c + 1\<rparr>)"

text \<open>The writer started by \<^verbatim>\<open>StartPersistence\<close> receives one op (\<^verbatim>\<open>case op := <-c.persistCh\<close>).\<close>

definition recvPersist :: "Cache \<Rightarrow> Cache" where
  "recvPersist c = c\<lparr>persistCh := tl (persistCh c)\<rparr>"

subsection \<open>Set, SetWithTime, Delete\<close>

text \<open>
  The first key a \<^verbatim>\<open>range\<close> over the map yields: none on the empty map, else the key at
  position \<open>n mod len\<close> of an enumeration of the keys.
\<close>

definition rangeFirst :: "nat \<Rightarrow> items \<Rightarrow> string option" where
  "rangeFirst n m =
     (let ks = sorted_list_of_fset (fmdom m) in
      if ks = [] then None else Some (ks ! (n mod length ks)))"

text \<open>\<^verbatim>\<open>for k := range s.items { delete(s.items, k); atomic.AddInt64(&c.count, -1); break }\<close>\<close>

definition evictOne :: "nat \<Rightarrow> 8 word \<Rightarrow> Cache \<Rightarrow> Cache" where
  "evictOne n i c =
     (case rangeFirst n (shards c i) of
        None \<Rightarrow> c
      | Some k \<Rightarrow> c\<lparr>shards := (shards c)(i := fmdrop k (shards c i)), count := count c - 1\<rparr>)"

definition upsertOp :: "string \<Rightarrow> entry \<Rightarrow> persistenceOp" where
  "upsertOp key e =
     \<lparr>IsDelete = False, Key = key, Value = e_value e, Exp = e_exp e, RefreshAt = e_refreshAt e\<rparr>"

text \<open>The part of \<^verbatim>\<open>Set\<close> and \<^verbatim>\<open>SetWithTime\<close> that runs under the shard lock.\<close>

definition store :: "nat \<Rightarrow> string \<Rightarrow> entry \<Rightarrow> Cache \<Rightarrow> Cache" where
  "store n key e c =
     (let i = shardIndex key in
      if key |\<in>| fmdom (shards c i) then c\<lparr>shards := (shards c)(i := fmupd key e (shards c i))\<rparr>
      else
        let c1 = (if shardCap c \<le> int (len (shards c i)) then evictOne n i c else c) in
        c1\<lparr>shards := (shards c1)(i := fmupd key e (shards c1 i)), count := count c1 + 1\<rparr>)"

text \<open>\<^verbatim>\<open>func (c *Cache) Set(key, val string)\<close>; \<open>n\<close> picks the evicted key.\<close>

definition Set :: "nat \<Rightarrow> string \<Rightarrow> string \<Rightarrow> Cache \<Rightarrow> Cache" where
  "Set n key val c =
     (let ex = now c + ttl c;
          e = \<lparr>e_value = val, e_exp = ex, e_refreshAt = ex - refreshWindow c\<rparr>
      in sendToPersist (upsertOp key e) (store n key e c))"

text \<open>\<^verbatim>\<open>func (c *Cache) SetWithTime(key, val string, exp, refreshAt int64)\<close>\<close>

definition SetWithTime :: "nat \<Rightarrow> string \<Rightarrow> string \<Rightarrow> int64 \<Rightarrow> int64 \<Rightarrow> Cache \<Rightarrow> Cache" where
  "SetWithTime n key val ex refr c =
     store n key \<lparr>e_value = val, e_exp = ex, e_refreshAt = refr\<rparr> c"

text \<open>\<^verbatim>\<open>func (c *Cache) Delete(key string)\<close>\<close>

definition Delete :: "string \<Rightarrow> Cache \<Rightarrow> Cache" where
  "Delete key c =
     (let i = shardIndex key in
      if key |\<in>| fmdom (shards c i) then
        sendToPersist \<lparr>IsDelete = True, Key = key, Value = '''', Exp = 0, RefreshAt = 0\<rparr>
          (c\<lparr>shards := (shards c)(i := fmdrop key (shards c i)), count := count c - 1\<rparr>)
      else c)"

subsection \<open>Background tasks and shutdown\<close>

text \<open>The clock of \<^verbatim>\<open>startClock\<close>: \<^verbatim>\<open>atomic.StoreInt64(&c.now, time.Now().UnixNano())\<close>.\<close>

definition tick :: "int64 \<Rightarrow> Cache \<Rightarrow> Cache" where
  "tick t c = c\<lparr>now := t\<rparr>"

text \<open>
  One iteration of the loop of \<^verbatim>\<open>cleanupShard\<close>, at key \<open>k\<close> of shard \<open>i\<close>.
\<close>

definition cleanupKey :: "8 word \<Rightarrow> int64 \<Rightarrow> string \<Rightarrow> Cache \<Rightarrow> Cache" where
  "cleanupKey i nw k c =
     (case fmlookup (shards c i) k of
        None \<Rightarrow> c
      | Some e \<Rightarrow>
          if sint (e_exp e) \<le> sint nw
          then c\<lparr>shards := (shards c)(i := fmdrop k (shards c i)), count := count c - 1\<rparr>
          else c)"

text \<open>
  \<^verbatim>\<open>func (c *Cache) cleanupShard(s *shard, now int64)\<close>, with the shard given by its index.
  The loop visits every key of the shard once (an iteration deletes no key but its own).
\<close>

definition cleanupShard :: "8 word \<Rightarrow> int64 \<Rightarrow> Cache \<Rightarrow> Cache" where
  "cleanupShard i nw c = fold (cleanupKey i nw) (sorted_list_of_fset (fmdom (shards c i))) c"

datatype panic = CloseOfClosedChannel | NilPointerDereference | ProviderPanic

text \<open>
  \<^verbatim>\<open>func (c *Cache) Close()\<close>: stores the closed flag, then closes \<^verbatim>\<open>stop\<close>, which panics
  when \<^verbatim>\<open>stop\<close> is closed already.
\<close>

definition Close :: "Cache \<Rightarrow> panic + Cache" where
  "Close c = (if stop c then Inl CloseOfClosedChannel else Inr (c\<lparr>closedFlag := 1, stop := True\<rparr>))"

definition Count :: "Cache \<Rightarrow> int64" where
  "Count c = count c"

definition DroppedCount :: "Cache \<Rightarrow> int64" where
  "DroppedCount c = droppedUpdates c"

subsection \<open>Histories of cache operations\<close>

datatype cache_op =
    OpSet nat string string
  | OpSetWithTime nat string string int64 int64
  | OpDelete string
  | OpTick int64
  | OpSweep "8 word" int64
  | OpRecv
  | OpClose

fun exec :: "cache_op \<Rightarrow> Cache \<Rightarrow> panic + Cache" where
  "exec (OpSet n key val) c = Inr (Set n key val c)"
| "exec (OpSetWithTime n key val ex refr) c = Inr (SetWithTime n key val ex refr c)"
| "exec (OpDelete key) c = Inr (Delete key c)"
| "exec (OpTick t) c = Inr (tick t c)"
| "exec (OpSweep i nw) c = Inr (cleanupShard i nw c)"
| "exec OpRecv c = Inr (recvPersist c)"
| "exec OpClose c = Close c"

text \<open>A history stops at a panic.\<close>

fun run :: "cache_op list \<Rightarrow> Cache \<Rightarrow> panic + Cache" where
  "run [] c = Inr c"
| "run (x # xs) c = (case exec x c of Inl p \<Rightarrow> Inl p | Inr c' \<Rightarrow> run xs c')"

text \<open>The number of bindings held by the 256 shards together.\<close>

definition bindings :: "Cache \<Rightarrow> nat" where
  "bindings c = (\<Sum>i\<in>UNIV. len (shards c i))"

subsection \<open>The counting invariant\<close>

text \<open>
  What holds of a cache between two operations: the capacity is positive and 256 shards of
  that capacity fit an \<^verbatim>\<open>int64\<close>, no shard holds more than its capacity, and the counter,
  read as a signed number, is the number of bindings.
\<close>

definition wellFormed :: "Cache \<Rightarrow> bool" where
  "wellFormed c \<longleftrightarrow>
     0 < shardCap c \<and> 256 * shardCap c < 2 ^ 63 \<and>
     (\<forall>i. int (len (shards c i)) \<le> shardCap c) \<and>
     sint (count c) = int (bindings c)"

subsection \<open>Example states\<close>

text \<open>
  A cache built with a TTL of 100 and no refresh window at clock reading 50, holding the
  tag of the /24 key \<^verbatim>\<open>1.2.3\<close> until 150; and the same cache after \<open>Close\<close>.
\<close>

definition exampleEntry :: entry where
  "exampleEntry = \<lparr>e_value = ''beijing_ct'', e_exp = 150, e_refreshAt = 150\<rparr>"

definition exampleCache :: Cache where
  "exampleCache =
     (New 100 0 50)\<lparr>shards := (\<lambda>i. fmempty)(shardIndex ''1.2.3'' := fmupd ''1.2.3'' exampleEntry fmempty),
                    count := 1\<rparr>"

definition closedCache :: Cache where
  "closedCache = exampleCache\<lparr>closedFlag := 1, stop := True\<rparr>"

section \<open>Properties of the cache\<close>

text \<open>
  C4. \<open>Get\<close> reports a miss, that is (empty value, not found, no refresh, remaining 0),
  whenever the key is absent from its shard or the cached clock has reached the entry's
  expiry (\<open>now \<ge> exp\<close>, so already at the expiry instant and whether or not the sweep has
  removed the entry). On a live entry it returns the stored value, found, the refresh flag
  \<open>refreshWindow > 0 \<and> now \<ge> refreshAt\<close>, and \<open>exp - now\<close> as the remaining time.
\<close>

theorem Get_miss_or_live:
  "(case fmlookup (shards c (shardIndex key)) key of
      None \<Rightarrow> Get c key = ('''', False, False, 0)
    | Some e \<Rightarrow>
        (sint (now c) \<ge> sint (e_exp e) \<longrightarrow> Get c key = ('''', False, False, 0)) \<and>
        (sint (now c) < sint (e_exp e) \<longrightarrow>
           Get c key =
             (e_value e, True,
              sint (refreshWindow c) > 0 \<and> sint (now c) \<ge> sint (e_refreshAt e),
              e_exp e - now c)))"
  by (simp add: Get_def getShard_def Let_def split: option.split)

theorem Get_miss_or_live_witness:
  "fmlookup (shards exampleCache (shardIndex ''1.2.3'')) ''1.2.3'' = Some exampleEntry \<and>
   sint (now exampleCache) < sint (e_exp exampleEntry) \<and>
   Get exampleCache ''1.2.3'' = (''beijing_ct'', True, False, 100) \<and>
   sint (now (tick 150 exampleCache)) \<ge> sint (e_exp exampleEntry) \<and>
   Get (tick 150 exampleCache) ''1.2.3'' = ('''', False, False, 0)"
  using Get_miss_or_live [of exampleCache "''1.2.3''"]
        Get_miss_or_live [of "tick 150 exampleCache" "''1.2.3''"]
  by (simp add: exampleCache_def exampleEntry_def New_def tick_def)

subsection \<open>Fields an operation leaves alone\<close>

lemma cleanupKey_fields [simp]:
  "closedFlag (cleanupKey i nw k c) = closedFlag c"
  "persistCh (cleanupKey i nw k c) = persistCh c"
  "droppedUpdates (cleanupKey i nw k c) = droppedUpdates c"
  "refreshWindow (cleanupKey i nw k c) = refreshWindow c"
  "shardCap (cleanupKey i nw k c) = shardCap c"
  "ttl (cleanupKey i nw k c) = ttl c"
  "now (cleanupKey i nw k c) = now c"
  "stop (cleanupKey i nw k c) = stop c"
  by (simp_all add: cleanupKey_def split: option.split)

lemma fold_cleanupKey_fields [simp]:
  "closedFlag (fold (cleanupKey i nw) ks c) = closedFlag c"
  "persistCh (fold (cleanupKey i nw) ks c) = persistCh c"
  "droppedUpdates (fold (cleanupKey i nw) ks c) = droppedUpdates c"
  "refreshWindow (fold (cleanupKey i nw) ks c) = refreshWindow c"
  "shardCap (fold (cleanupKey i nw) ks c) = shardCap c"
  "ttl (fold (cleanupKey i nw) ks c) = ttl c"
  "now (fold (cleanupKey i nw) ks c) = now c"
  "stop (fold (cleanupKey i nw) ks c) = stop c"
  by (induction ks arbitrary: c; simp)+

lemma cleanupShard_fields [simp]:
  "closedFlag (cleanupShard i nw c) = closedFlag c"
  "persistCh (cleanupShard i nw c) = persistCh c"
  "droppedUpdates (cleanupShard i nw c) = droppedUpdates c"
  "refreshWindow (cleanupShard i nw c) = refreshWindow c"
  "shardCap (cleanupShard i nw c) = shardCap c"
  "ttl (cleanupShard i nw c) = ttl c"
  "now (cleanupShard i nw c) = now c"
  "stop (cleanupShard i nw c) = stop c"
  by (simp_all add: cleanupShard_def)

lemma evictOne_fields [simp]:
  "closedFlag (evictOne n i c) = closedFlag c"
  "persistCh (evictOne n i c) = persistCh c"
  "droppedUpdates (evictOne n i c) = droppedUpdates c"
  "refreshWindow (evictOne n i c) = refreshWindow c"
  "shardCap (evictOne n i c) = shardCap c"
  "ttl (evictOne n i c) = ttl c"
  "now (evictOne n i c) = now c"
  "stop (evictOne n i c) = stop c"
  by (simp_all add: evictOne_def split: option.split)

lemma store_fields [simp]:
  "closedFlag (store n key e c) = closedFlag c"
  "persistCh (store n key e c) = persistCh c"
  "droppedUpdates (store n key e c) = droppedUpdates c"
  "refreshWindow (store n key e c) = refreshWindow c"
  "shardCap (store n key e c) = shardCap c"
  "ttl (store n key e c) = ttl c"
  "now (store n key e c) = now c"
  "stop (store n key e c) = stop c"
  by (simp_all add: store_def Let_def)

lemma sendToPersist_fields [simp]:
  "closedFlag (sendToPersist op c) = closedFlag c"
  "refreshWindow (sendToPersist op c) = refreshWindow c"
  "shardCap (sendToPersist op c) = shardCap c"
  "ttl (sendToPersist op c) = ttl c"
  "now (sendToPersist op c) = now c"
  "stop (sendToPersist op c) = stop c"
  "shards (sendToPersist op c) = shards c"
  "count (sendToPersist op c) = count c"
  by (simp_all add: sendToPersist_def)

subsection \<open>The persistence channel\<close>

lemma sendToPersist_closed:
  "closedFlag c = 1 \<Longrightarrow> persistCh (sendToPersist op c) = persistCh c"
  by (simp add: sendToPersist_def)

lemma exec_closed:
  assumes "closedFlag c = 1" and "exec x c = Inr c'"
  shows "closedFlag c' = 1 \<and> (persistCh c' = persistCh c \<or> persistCh c' = tl (persistCh c))"
  using assms
  by (cases x)
     (auto simp: Set_def SetWithTime_def Delete_def tick_def recvPersist_def Close_def Let_def
        sendToPersist_closed split: if_splits)

lemma run_closed:
  "closedFlag c = 1 \<Longrightarrow> run xs c = Inr c' \<Longrightarrow>
     closedFlag c' = 1 \<and> (\<exists>n. persistCh c' = drop n (persistCh c))"
proof (induction xs arbitrary: c)
  case Nil
  then have "c' = c" by simp
  moreover have "persistCh c = drop 0 (persistCh c)" by simp
  ultimately show ?case using Nil.prems(1) by blast
next
  case (Cons x xs)
  then obtain c1 where x: "exec x c = Inr c1" and r: "run xs c1 = Inr c'"
    by (auto split: sum.splits)
  from exec_closed [OF Cons.prems(1) x]
  have c1: "closedFlag c1 = 1" and p: "persistCh c1 = persistCh c \<or> persistCh c1 = tl (persistCh c)"
    by auto
  from Cons.IH [OF c1 r] obtain n where n: "closedFlag c' = 1" "persistCh c' = drop n (persistCh c1)"
    by auto
  from p show ?case
  proof
    assume "persistCh c1 = persistCh c"
    with n show ?thesis by auto
  next
    assume "persistCh c1 = tl (persistCh c)"
    with n have "persistCh c' = drop (Suc n) (persistCh c)" by (simp add: drop_Suc)
    with n show ?thesis by blast
  qed
qed

text \<open>
  C5. \<open>sendToPersist\<close> is a total function of the state, so it never waits. If the closed
  flag is set, or else the channel already holds its 2048 ops, the channel is left as it
  is (the op is dropped) and \<open>droppedUpdates\<close> grows by exactly one; otherwise the op is
  appended to the channel and \<open>droppedUpdates\<close> stays. After a \<open>Close\<close> that returned, and
  any further history of cache operations, the channel holds only ops it held when \<open>Close\<close>
  returned (the writer may have received some), and every \<open>sendToPersist\<close> is a drop.
\<close>

theorem sendToPersist_drops_or_enqueues:
  "(closedFlag c = 1 \<or> persistChCap \<le> length (persistCh c) \<longrightarrow>
      persistCh (sendToPersist op c) = persistCh c \<and>
      droppedUpdates (sendToPersist op c) = droppedUpdates c + 1) \<and>
   (closedFlag c \<noteq> 1 \<and> length (persistCh c) < persistChCap \<longrightarrow>
      persistCh (sendToPersist op c) = persistCh c @ [op] \<and>
      droppedUpdates (sendToPersist op c) = droppedUpdates c) \<and>
   (Close c = Inr c1 \<and> run xs c1 = Inr c2 \<longrightarrow>
      (\<exists>n. persistCh c2 = drop n (persistCh c1)) \<and>
      persistCh (sendToPersist op c2) = persistCh c2 \<and>
      droppedUpdates (sendToPersist op c2) = droppedUpdates c2 + 1)"
proof -
  have "closedFlag c1 = 1" if "Close c = Inr c1"
    using that by (auto simp: Close_def split: if_splits)
  then show ?thesis
    using run_closed [of c1 xs c2] by (auto simp: sendToPersist_def)
qed

lemma sendToPersist_simps:
  "persistCh (sendToPersist op c) =
     (if closedFlag c = 1 \<or> persistChCap \<le> length (persistCh c) then persistCh c else persistCh c @ [op])"
  "droppedUpdates (sendToPersist op c) =
     (if closedFlag c = 1 \<or> persistChCap \<le> length (persistCh c) then droppedUpdates c + 1 else droppedUpdates c)"
  by (auto simp: sendToPersist_def)

theorem sendToPersist_drops_or_enqueues_witness:
  "closedFlag exampleCache \<noteq> 1 \<and> length (persistCh exampleCache) < persistChCap \<and>
   persistCh (sendToPersist (upsertOp ''1.2.3'' exampleEntry) exampleCache)
     = [upsertOp ''1.2.3'' exampleEntry] \<and>
   Close exampleCache = Inr closedCache \<and>
   run [OpSet 0 ''8.8.8'' ''fallback''] closedCache = Inr (Set 0 ''8.8.8'' ''fallback'' closedCache) \<and>
   closedFlag closedCache = 1 \<and>
   persistCh (Set 0 ''8.8.8'' ''fallback'' closedCache) = [] \<and>
   droppedUpdates (Set 0 ''8.8.8'' ''fallback'' closedCache) = 1 \<and>
   droppedUpdates
     (sendToPersist (upsertOp ''1.2.3'' exampleEntry) (Set 0 ''8.8.8'' ''fallback'' closedCache)) = 2"
proof -
  have a: "closedFlag exampleCache \<noteq> 1" "length (persistCh exampleCache) < persistChCap"
    "persistCh exampleCache = []" "droppedUpdates exampleCache = 0"
    by (simp_all add: exampleCache_def New_def persistChCap_def)
  have b: "Close exampleCache = Inr closedCache"
    by (simp add: Close_def closedCache_def exampleCache_def New_def)
  have c: "run [OpSet 0 ''8.8.8'' ''fallback''] closedCache = Inr (Set 0 ''8.8.8'' ''fallback'' closedCache)"
    by simp
  have d: "closedFlag closedCache = 1" "persistCh closedCache = []" "droppedUpdates closedCache = 0"
    by (simp_all add: closedCache_def a)
  have e: "persistCh (Set 0 ''8.8.8'' ''fallback'' closedCache) = []"
    "droppedUpdates (Set 0 ''8.8.8'' ''fallback'' closedCache) = 1"
    by (simp_all add: Set_def Let_def sendToPersist_simps d)
  show ?thesis
    using sendToPersist_drops_or_enqueues
          [of exampleCache "upsertOp ''1.2.3'' exampleEntry" closedCache
              "[OpSet 0 ''8.8.8'' ''fallback'']" "Set 0 ''8.8.8'' ''fallback'' closedCache"]
    a b c d e by simp
qed

end
